theory Spec2Isabelle
  imports Main "HOL-Library.Word"
begin

section \<open>Objects in C99: the object / interface / vtable runtime of interface\_demo.c\<close>

text \<open>
  The C program builds a small object system out of four structs (\<open>iface\<close>, \<open>impl\<close>,
  \<open>class\<close>, \<open>object\<close>), a resolver \<open>has_iface\<close>, a dispatcher \<open>println\<close> and one
  concrete type, \<open>number\<close>. The embedding below follows the C text function by function.

  \<^item> Pointers are values of the datatype \<open>ptr\<close>: the null pointer, the address of a named
    object of static storage, the address of a block handed out by \<open>malloc\<close>, or the address
    of an automatic variable. Pointer comparison in C is equality of these values.
  \<^item> A read or write that C leaves undefined (null or dangling dereference, an index past
    the end of an array, a second \<open>free\<close> of the same block, signed overflow) is a value
    \<open>Inl e\<close> of the result type \<open>error + 'a\<close>; so is a failed \<open>assert\<close>.
  \<^item> The mutable memory of the process (heap blocks, the automatic dispatch table of
    \<open>main\<close>, the bytes written to file descriptor 1) is a record passed through every
    function that touches it. A C function that writes through a pointer argument
    (\<open>destroy_number\<close>, \<open>destroy_number_print_iface\<close>) returns the updated pointee.
\<close>

subsection \<open>Machine types\<close>

type_synonym byte = "8 word"   \<comment> \<open>\<open>char\<close> / \<open>unsigned char\<close>\<close>
type_synonym cint = "32 word"  \<comment> \<open>\<open>int\<close>, 32-bit two's complement, read with \<open>sint\<close>\<close>

datatype ptr = NULL | Global string | Heap nat | Local nat

text \<open>A pointer to a function: null, or the address of the function of that name.\<close>

datatype fnptr = FnNull | FnAddr string

datatype error =
    NullDeref
  | OutOfBounds
  | UseAfterFree
  | InvalidPointer
  | InvalidFree
  | SignedOverflow
  | BadCall
  | AssertFailed string

subsection \<open>The object system (object.h)\<close>

text \<open>
  Field names carry the struct's name as a prefix where two structs of the source share a
  field name (\<open>impl.type\<close>, \<open>object.type\<close>) or where the name is an Isabelle keyword
  (\<open>instance\<close>); the struct \<open>class\<close> is the record \<open>class_t\<close> for the same reason.
\<close>

record iface =
  vtable_size :: nat

record impl =
  impl_type :: ptr      \<comment> \<open>\<open>iface * type\<close>\<close>
  impl_vtable :: ptr    \<comment> \<open>\<open>void * vtable\<close>\<close>

text \<open>
  \<open>interfaces\<close> is, in C, a pointer to the first element of an array; the record holds the
  array it points to, with the extent the array really has. \<open>interface_count\<close> is stored
  separately, as in C, and nothing forces it to agree with that extent.
\<close>

record class_t =
  instance_size :: nat
  interface_count :: byte
  interfaces :: "impl list"

record object =
  object_type :: ptr       \<comment> \<open>\<open>struct class * type\<close>\<close>
  object_instance :: ptr   \<comment> \<open>\<open>void * instance\<close>\<close>

definition null_impl :: impl where
  "null_impl = \<lparr>impl_type = NULL, impl_vtable = NULL\<rparr>"

text \<open>Reading \<open>self.type->...\<close>: the class descriptors in memory, by address.\<close>

definition deref_class :: "(ptr \<rightharpoonup> class_t) \<Rightarrow> ptr \<Rightarrow> error + class_t" where
  "deref_class cls p =
     (if p = NULL then Inl NullDeref
      else case cls p of None \<Rightarrow> Inl InvalidPointer | Some c \<Rightarrow> Inr c)"

text \<open>
  The \<open>for\<close> loop of \<open>has_iface\<close>, entered with the current value of the
  \<open>unsigned char i\<close>. \<open>++i\<close> is addition on 8-bit words. The C loop does not compare
  \<open>i\<close> with the extent of the array: with \<open>i\<close> below the count and past the last entry
  it reads the memory behind the array, compares it and can return it. That read is
  undefined; here the run ends with \<open>OutOfBounds\<close> at that point, and no property below
  of a class whose count exceeds its array says more of it than that the read happens.
\<close>

function has_iface_loop :: "class_t \<Rightarrow> ptr \<Rightarrow> byte \<Rightarrow> error + impl" where
  "has_iface_loop c interface i =
     (if i < interface_count c then
        (if unat i < length (interfaces c) then
           (if impl_type (interfaces c ! unat i) = interface
            then Inr (interfaces c ! unat i)
            else has_iface_loop c interface (i + 1))
         else Inl OutOfBounds)
      else Inr null_impl)"
  by pat_completeness auto
termination
proof (relation "measure (\<lambda>(c, interface, i). unat (interface_count c) - unat i)")
  show "wf (measure (\<lambda>(c, interface, i). unat (interface_count c) - unat i))"
    by simp
next
  fix c :: class_t and interface :: ptr and i :: byte
  assume lt: "i < interface_count c"
  then have below: "unat i < unat (interface_count c)"
    by (simp add: word_less_nat_alt)
  have "unat (interface_count c) < 256"
    using unsigned_less [of "interface_count c", where 'a = nat] by simp
  with below have "unat i + 1 < 256"
    by simp
  then have "unat (i + 1) = Suc (unat i)"
    by (simp add: unat_word_ariths)
  with below show "((c, interface, i + 1), (c, interface, i))
      \<in> measure (\<lambda>(c, interface, i). unat (interface_count c) - unat i)"
    by simp
qed

definition has_iface :: "(ptr \<rightharpoonup> class_t) \<Rightarrow> object \<Rightarrow> ptr \<Rightarrow> error + impl" where
  "has_iface cls self interface =
     (case deref_class cls (object_type self) of
        Inl e \<Rightarrow> Inl e
      | Inr c \<Rightarrow> has_iface_loop c interface 0)"

definition iface_isnull :: "impl \<Rightarrow> int" where
  "iface_isnull interface = (if impl_vtable interface = NULL then 1 else 0)"

subsection \<open>Process memory\<close>

record printable_vtable =
  toString :: fnptr   \<comment> \<open>\<open>void (*toString) (object self, size_t length, char * buf)\<close>\<close>

record number =
  representation :: cint

text \<open>
  What a block obtained from \<open>malloc\<close> holds: nothing yet, a \<open>struct number\<close>, or a
  \<open>printable_vtable\<close>. A heap address is live, released by \<open>free\<close>, or was never handed
  out (\<open>None\<close> in the map).
\<close>

datatype blk = Uninit | NumberBlk number | VtableBlk printable_vtable

datatype slot = Live blk | Released

text \<open>
  \<open>brk\<close> is the next address \<open>malloc\<close> hands out and \<open>heap_limit\<close> the first address it
  cannot: \<open>malloc\<close> fails, returning \<open>NULL\<close>, once the two meet. \<open>locals\<close> holds the
  dispatch tables that live in automatic variables; \<open>stdout\<close> the bytes written to file
  descriptor 1 so far.
\<close>

record state =
  heap :: "nat \<rightharpoonup> slot"
  brk :: nat
  heap_limit :: nat
  locals :: "nat \<rightharpoonup> printable_vtable"
  stdout :: "byte list"

definition malloc :: "state \<Rightarrow> ptr \<times> state" where
  "malloc s =
     (if brk s < heap_limit s
      then (Heap (brk s), s\<lparr>heap := (heap s)(brk s \<mapsto> Live Uninit), brk := Suc (brk s)\<rparr>)
      else (NULL, s))"

text \<open>\<open>free(NULL)\<close> does nothing; \<open>free\<close> of anything but a live block is undefined.\<close>

definition free :: "state \<Rightarrow> ptr \<Rightarrow> error + state" where
  "free s p =
     (case p of
        NULL \<Rightarrow> Inr s
      | Heap a \<Rightarrow>
          (case heap s a of
             Some (Live b) \<Rightarrow> Inr (s\<lparr>heap := (heap s)(a \<mapsto> Released)\<rparr>)
           | _ \<Rightarrow> Inl InvalidFree)
      | _ \<Rightarrow> Inl InvalidFree)"

text \<open>Writing a whole block through a pointer that \<open>malloc\<close> returned.\<close>

definition store_blk :: "state \<Rightarrow> ptr \<Rightarrow> blk \<Rightarrow> error + state" where
  "store_blk s p b =
     (case p of
        NULL \<Rightarrow> Inl NullDeref
      | Heap a \<Rightarrow>
          (case heap s a of
             Some (Live old) \<Rightarrow> Inr (s\<lparr>heap := (heap s)(a \<mapsto> Live b)\<rparr>)
           | Some Released \<Rightarrow> Inl UseAfterFree
           | None \<Rightarrow> Inl InvalidPointer)
      | _ \<Rightarrow> Inl InvalidPointer)"

text \<open>Reading \<open>self->representation\<close> through a \<open>struct number *\<close>.\<close>

definition deref_number :: "state \<Rightarrow> ptr \<Rightarrow> error + number" where
  "deref_number s p =
     (case p of
        NULL \<Rightarrow> Inl NullDeref
      | Heap a \<Rightarrow>
          (case heap s a of
             Some (Live (NumberBlk n)) \<Rightarrow> Inr n
           | Some (Live other) \<Rightarrow> Inl InvalidPointer
           | Some Released \<Rightarrow> Inl UseAfterFree
           | None \<Rightarrow> Inl InvalidPointer)
      | _ \<Rightarrow> Inl InvalidPointer)"

text \<open>Sequencing of calls that can fault: the first fault ends the run.\<close>

fun and_then :: "error + 'a \<Rightarrow> ('a \<Rightarrow> error + 'b) \<Rightarrow> error + 'b" where
  "and_then (Inl e) f = Inl e"
| "and_then (Inr x) f = f x"

subsection \<open>Objects of static storage\<close>

text \<open>
  \<open>sizeof\<close> on the usual LP64 layout: pointers of every kind take 8 bytes, \<open>int\<close> takes 4,
  and a struct of two pointers has no padding.
\<close>

definition sizeof_void_ptr :: nat where
  "sizeof_void_ptr = 8"

definition sizeof_int :: nat where
  "sizeof_int = 4"

definition sizeof_impl :: nat where
  "sizeof_impl = 2 * sizeof_void_ptr"

definition sizeof_printable_vtable :: nat where
  "sizeof_printable_vtable = sizeof_void_ptr"

definition sizeof_number :: nat where
  "sizeof_number = sizeof_int"

definition printable_iface :: iface where
  "printable_iface = \<lparr>vtable_size = sizeof_printable_vtable\<rparr>"

definition printable_iface_ptr :: ptr where   \<comment> \<open>\<open>&printable_iface\<close>\<close>
  "printable_iface_ptr = Global ''printable_iface''"

definition number_class_ptr :: ptr where   \<comment> \<open>\<open>&number_class\<close>\<close>
  "number_class_ptr = Global ''number_class''"

definition number_print_ptr :: fnptr where   \<comment> \<open>\<open>&number_print\<close>\<close>
  "number_print_ptr = FnAddr ''number_print''"

definition number_printable_vtable :: printable_vtable where
  "number_printable_vtable = \<lparr>toString = number_print_ptr\<rparr>"

definition number_printable_vtable_ptr :: ptr where   \<comment> \<open>\<open>&number_printable_vtable\<close>\<close>
  "number_printable_vtable_ptr = Global ''number_printable_vtable''"

definition number_printable_impl :: impl where
  "number_printable_impl =
     \<lparr>impl_type = printable_iface_ptr, impl_vtable = number_printable_vtable_ptr\<rparr>"

definition number_interfaces :: "impl list" where
  "number_interfaces =
     [\<lparr>impl_type = printable_iface_ptr, impl_vtable = number_printable_vtable_ptr\<rparr>]"

definition sizeof_number_interfaces :: nat where
  "sizeof_number_interfaces = length number_interfaces * sizeof_impl"

text \<open>
  \<open>.interface_count = sizeof(number_interfaces) / sizeof(void *)\<close>, converted to
  \<open>unsigned char\<close>.
\<close>

definition number_class :: class_t where
  "number_class =
     \<lparr>instance_size = sizeof_number,
      interface_count = of_nat (sizeof_number_interfaces div sizeof_void_ptr),
      interfaces = number_interfaces\<rparr>"

text \<open>The class descriptors the program defines, by address.\<close>

definition static_classes :: "ptr \<rightharpoonup> class_t" where
  "static_classes = [number_class_ptr \<mapsto> number_class]"

text \<open>
  Reading \<open>v->toString\<close> after the cast \<open>(printable_vtable *) contract.vtable\<close>: the
  pointer must be the address of a dispatch table, static, on the heap or automatic.
\<close>

definition deref_vtable :: "state \<Rightarrow> ptr \<Rightarrow> error + printable_vtable" where
  "deref_vtable s p =
     (case p of
        NULL \<Rightarrow> Inl NullDeref
      | Global g \<Rightarrow>
          (if Global g = number_printable_vtable_ptr then Inr number_printable_vtable
           else Inl InvalidPointer)
      | Heap a \<Rightarrow>
          (case heap s a of
             Some (Live (VtableBlk v)) \<Rightarrow> Inr v
           | Some (Live other) \<Rightarrow> Inl InvalidPointer
           | Some Released \<Rightarrow> Inl UseAfterFree
           | None \<Rightarrow> Inl InvalidPointer)
      | Local k \<Rightarrow>
          (case locals s k of Some v \<Rightarrow> Inr v | None \<Rightarrow> Inl InvalidPointer))"

subsection \<open>The number type (number.c)\<close>

definition new_number :: "state \<Rightarrow> cint \<Rightarrow> error + state \<times> object" where
  "new_number s val =
     (case malloc s of (self, s1) \<Rightarrow>
        and_then (store_blk s1 self (NumberBlk \<lparr>representation = val\<rparr>))
          (\<lambda>s2. Inr (s2, \<lparr>object_type = number_class_ptr, object_instance = self\<rparr>)))"

text \<open>
  \<open>destroy_number\<close> takes the handle by address; the model takes the handle and returns
  it as the call leaves it.
\<close>

definition destroy_number :: "state \<Rightarrow> object \<Rightarrow> error + state \<times> object" where
  "destroy_number s self =
     and_then (free s (object_instance self))
       (\<lambda>s1. Inr (s1, self\<lparr>object_instance := NULL\<rparr>))"

text \<open>
  \<open>number_print\<close> returns the buffer as it leaves it; its parameter \<open>_self\<close> is
  \<open>self0\<close> here, and likewise in \<open>new_runtime_number_print_iface\<close>.
  \<open>self->representation + '0'\<close> is an \<open>int\<close> addition (undefined on overflow); storing
  it in a \<open>char\<close> keeps its low 8 bits. The functions of number.c stand before \<open>println\<close>
  here, which reaches \<open>number_print\<close> through the function pointer in a dispatch table.
\<close>

definition INT_MAX :: int where
  "INT_MAX = 2147483647"

definition number_print :: "state \<Rightarrow> object \<Rightarrow> nat \<Rightarrow> byte list \<Rightarrow> error + byte list" where
  "number_print s self0 len buf =
     (if object_type self0 \<noteq> number_class_ptr then Inl (AssertFailed ''number_print'')
      else if len > 1 then
        and_then (deref_number s (object_instance self0))
          (\<lambda>self.
             if sint (representation self) + 48 > INT_MAX then Inl SignedOverflow
             else if buf = [] then Inl OutOfBounds
             else Inr (buf[0 := ucast (representation self + 48)]))
      else Inr buf)"

definition new_runtime_number_print_iface :: "state \<Rightarrow> object \<Rightarrow> error + state \<times> impl" where
  "new_runtime_number_print_iface s self0 =
     (if object_type self0 \<noteq> number_class_ptr
      then Inl (AssertFailed ''new_runtime_number_print_iface'')
      else case malloc s of (vtable, s1) \<Rightarrow>
        and_then (store_blk s1 vtable (VtableBlk \<lparr>toString = number_print_ptr\<rparr>))
          (\<lambda>s2. Inr (s2, \<lparr>impl_type = printable_iface_ptr, impl_vtable = vtable\<rparr>)))"

definition destroy_number_print_iface :: "state \<Rightarrow> impl \<Rightarrow> error + state \<times> impl" where
  "destroy_number_print_iface s generated =
     and_then (free s (impl_vtable generated))
       (\<lambda>s1. Inr (s1, generated\<lparr>impl_vtable := NULL\<rparr>))"

subsection \<open>The polymorphic printer (println.c)\<close>

text \<open>
  A call through a \<open>toString\<close> function pointer: \<open>number_print\<close> is the one function of
  that signature; a call through any other pointer value is undefined.
\<close>

definition call_toString ::
  "fnptr \<Rightarrow> state \<Rightarrow> object \<Rightarrow> nat \<Rightarrow> byte list \<Rightarrow> error + byte list" where
  "call_toString f s self len buf =
     (if f = number_print_ptr then number_print s self len buf
      else if f = FnNull then Inl NullDeref
      else Inl BadCall)"

text \<open>\<open>write(1, buf, n)\<close>, taken to transfer all \<open>n\<close> bytes.\<close>

definition write_stdout :: "state \<Rightarrow> byte list \<Rightarrow> nat \<Rightarrow> state" where
  "write_stdout s buf n = s\<lparr>stdout := stdout s @ take n buf\<rparr>"

text \<open>
  \<open>assert(contract.type = &printable_iface)\<close> is an assignment: it stores the address in
  the parameter \<open>contract\<close> and tests the stored pointer against null.
\<close>

definition println :: "state \<Rightarrow> object \<Rightarrow> impl \<Rightarrow> error + state" where
  "println s self contract =
     (let contract1 = contract\<lparr>impl_type := printable_iface_ptr\<rparr> in
      if impl_type contract1 = NULL then Inl (AssertFailed ''println'')
      else
        and_then (deref_vtable s (impl_vtable contract1))
          (\<lambda>v. and_then (call_toString (toString v) s self 2 [0, 10])
             (\<lambda>buf. Inr (write_stdout s buf 2))))"

subsection \<open>Example usage (main)\<close>

text \<open>The automatic \<open>my_num_vtable\<close> of \<open>main\<close> lives at \<open>Local 0\<close>.\<close>

definition main :: "state \<Rightarrow> error + int \<times> state" where
  "main s0 =
     and_then (new_number s0 3) (\<lambda>(s1, num).
     and_then (new_runtime_number_print_iface s1 num) (\<lambda>(s2, generated).
     and_then (println s2 num generated) (\<lambda>s3.
     and_then (destroy_number_print_iface s3 generated) (\<lambda>(s4, generated1).
     let s5 = s4\<lparr>locals := (locals s4)(0 \<mapsto> \<lparr>toString = toString number_printable_vtable\<rparr>)\<rparr>;
         my_printable_implementation =
           \<lparr>impl_type = printable_iface_ptr, impl_vtable = Local 0\<rparr> in
     and_then (println s5 num my_printable_implementation) (\<lambda>s6.
     and_then (println s6 num number_printable_impl) (\<lambda>s7.
     and_then (has_iface static_classes num printable_iface_ptr) (\<lambda>contract.
     and_then (if iface_isnull contract = 0 then println s7 num contract else Inr s7) (\<lambda>s8.
     and_then (destroy_number s8 num) (\<lambda>(s9, num1).
     Inr (0, s9))))))))))"

text \<open>A process image before \<open>main\<close>: empty heap with room for \<open>n\<close> blocks, no output.\<close>

definition init_state :: "nat \<Rightarrow> state" where
  "init_state n = \<lparr>heap = Map.empty, brk = 0, heap_limit = n, locals = Map.empty, stdout = []\<rparr>"

subsection \<open>Vocabulary of the properties\<close>

text \<open>
  The binding sequence a class descriptor designates: the first \<open>interface_count\<close> entries
  of the array \<open>interfaces\<close> points to. A class declares an interface when the address of
  its descriptor is the \<open>type\<close> field of one of them.
\<close>

definition class_bindings :: "class_t \<Rightarrow> impl list" where
  "class_bindings c = take (unat (interface_count c)) (interfaces c)"

definition declares :: "class_t \<Rightarrow> ptr \<Rightarrow> bool" where
  "declares c interface = (interface \<in> set (map impl_type (class_bindings c)))"

text \<open>
  A constructed, not yet destroyed number object holding \<open>v\<close>: its class reference is
  \<open>&number_class\<close> and its instance reference is a live \<open>struct number\<close> block.
\<close>

definition live_number :: "state \<Rightarrow> object \<Rightarrow> cint \<Rightarrow> bool" where
  "live_number s self v =
     (object_type self = number_class_ptr \<and>
      (case object_instance self of
         Heap a \<Rightarrow> a < brk s \<and> heap s a = Some (Live (NumberBlk \<lparr>representation = v\<rparr>))
       | _ \<Rightarrow> False))"

text \<open>What a run of \<open>println\<close> lets an observer see: the fault, or the bytes on descriptor 1.\<close>

definition observable :: "error + state \<Rightarrow> error + byte list" where
  "observable r = (case r of Inl e \<Rightarrow> Inl e | Inr s \<Rightarrow> Inr (stdout s))"

subsection \<open>Sample inputs\<close>

text \<open>
  \<open>exact_number_class\<close> is \<open>number_class\<close> with the count its one-element array really has;
  \<open>comparable_iface\<close> is a second interface descriptor with the table size of
  \<open>printable_iface\<close>, which no class implements.
\<close>

definition exact_number_class :: class_t where
  "exact_number_class = number_class\<lparr>interface_count := of_nat (length number_interfaces)\<rparr>"

definition comparable_iface_ptr :: ptr where
  "comparable_iface_ptr = Global ''comparable_iface''"

definition sample_classes :: "ptr \<rightharpoonup> class_t" where
  "sample_classes = [Global ''exact_number_class'' \<mapsto> exact_number_class]"

definition sample_ifaces :: "ptr \<rightharpoonup> iface" where
  "sample_ifaces =
     [printable_iface_ptr \<mapsto> printable_iface,
      comparable_iface_ptr \<mapsto> \<lparr>vtable_size = sizeof_void_ptr\<rparr>]"

definition sample_number :: object where
  "sample_number = \<lparr>object_type = number_class_ptr, object_instance = Heap 0\<rparr>"

definition sample_exact_number :: object where
  "sample_exact_number = \<lparr>object_type = Global ''exact_number_class'', object_instance = Heap 0\<rparr>"

text \<open>
  The states of a run on an empty heap with room for two blocks: after \<open>new_number(3)\<close>,
  after \<open>new_runtime_number_print_iface\<close>, after the release of that binding, and after
  \<open>destroy_number\<close> straight away.
\<close>

definition sample_state :: state where
  "sample_state =
     \<lparr>heap = [0 \<mapsto> Live (NumberBlk \<lparr>representation = 3\<rparr>)],
      brk = 1, heap_limit = 2, locals = Map.empty, stdout = []\<rparr>"

definition sample_generated :: impl where
  "sample_generated = \<lparr>impl_type = printable_iface_ptr, impl_vtable = Heap 1\<rparr>"

definition sample_generated_state :: state where
  "sample_generated_state =
     sample_state\<lparr>heap := (heap sample_state)(1 \<mapsto> Live (VtableBlk \<lparr>toString = number_print_ptr\<rparr>)),
                  brk := 2\<rparr>"

definition sample_released :: impl where
  "sample_released = \<lparr>impl_type = printable_iface_ptr, impl_vtable = NULL\<rparr>"

definition sample_released_state :: state where
  "sample_released_state =
     sample_generated_state\<lparr>heap := (heap sample_generated_state)(1 \<mapsto> Released)\<rparr>"

definition sample_destroyed :: object where
  "sample_destroyed = \<lparr>object_type = number_class_ptr, object_instance = NULL\<rparr>"

definition sample_destroyed_state :: state where
  "sample_destroyed_state = sample_state\<lparr>heap := (heap sample_state)(0 \<mapsto> Released)\<rparr>"

section \<open>Properties\<close>

lemmas static_defs =
  number_class_def number_interfaces_def sizeof_number_interfaces_def sizeof_impl_def
  sizeof_void_ptr_def sizeof_number_def sizeof_int_def number_class_ptr_def
  printable_iface_ptr_def number_printable_vtable_ptr_def number_printable_vtable_def
  number_print_ptr_def number_printable_impl_def static_classes_def

lemmas sample_defs =
  sample_number_def sample_exact_number_def comparable_iface_ptr_def exact_number_class_def
  sample_classes_def sample_ifaces_def

lemmas state_defs =
  sample_state_def sample_generated_def sample_generated_state_def sample_released_def
  sample_released_state_def sample_destroyed_def sample_destroyed_state_def

subsection \<open>Interface resolution\<close>

text \<open>Below the count, \<open>++i\<close> does not wrap.\<close>

lemma unat_succ_below:
  fixes i n :: byte
  assumes "i < n"
  shows "unat (i + 1) = Suc (unat i)"
proof -
  from assms have "unat i < unat n"
    by (simp add: word_less_nat_alt)
  moreover have "unat n < 256"
    using unsigned_less [of n, where 'a = nat] by simp
  ultimately have "unat i + 1 < 256"
    by simp
  then show ?thesis
    by (simp add: unat_word_ariths)
qed

text \<open>
  The scan in closed form. Entered at \<open>i\<close>, it returns the first of the remaining declared
  bindings whose \<open>type\<close> is the queried address; with none, it returns the null sentinel
  if the declared count stays within the array and reads past its end otherwise.
\<close>

lemma has_iface_loop_find:
  "unat i < unat (interface_count c) \<or> unat (interface_count c) \<le> length (interfaces c) \<Longrightarrow>
   has_iface_loop c interface i =
     (case find (\<lambda>b. impl_type b = interface)
             (drop (unat i) (take (unat (interface_count c)) (interfaces c))) of
        Some b \<Rightarrow> Inr b
      | None \<Rightarrow>
          if unat (interface_count c) \<le> length (interfaces c) then Inr null_impl
          else Inl OutOfBounds)"
proof (induction c interface i rule: has_iface_loop.induct)
  case (1 c interface i)
  let ?n = "unat (interface_count c)"
  let ?xs = "interfaces c"
  let ?k = "unat i"
  show ?case
  proof (cases "i < interface_count c")
    case False
    then have ge: "?n \<le> ?k"
      by (simp add: word_less_nat_alt)
    with "1.prems" have "?n \<le> length ?xs"
      by simp
    moreover from ge have "drop ?k (take ?n ?xs) = []"
      by simp
    ultimately show ?thesis
      using False by (subst has_iface_loop.simps) simp
  next
    case True
    then have lt: "?k < ?n"
      by (simp add: word_less_nat_alt)
    show ?thesis
    proof (cases "?k < length ?xs")
      case False
      then have "drop ?k (take ?n ?xs) = []"
        by simp
      moreover from False lt have "\<not> ?n \<le> length ?xs"
        by simp
      ultimately show ?thesis
        using True False by (subst has_iface_loop.simps) simp
    next
      case inb: True
      from lt inb have split: "drop ?k (take ?n ?xs) = ?xs ! ?k # drop (Suc ?k) (take ?n ?xs)"
        by (simp add: Cons_nth_drop_Suc [symmetric])
      show ?thesis
      proof (cases "impl_type (?xs ! ?k) = interface")
        case True
        with \<open>i < interface_count c\<close> inb split show ?thesis
          by (subst has_iface_loop.simps) simp
      next
        case False
        have suc: "unat (i + 1) = Suc ?k"
          using \<open>i < interface_count c\<close> by (rule unat_succ_below)
        from lt inb have inv: "unat (i + 1) < ?n \<or> ?n \<le> length ?xs"
          unfolding suc by auto
        have "has_iface_loop c interface i = has_iface_loop c interface (i + 1)"
          using \<open>i < interface_count c\<close> inb False by (subst has_iface_loop.simps) simp
        also have "\<dots> = (case find (\<lambda>b. impl_type b = interface)
             (drop (unat (i + 1)) (take ?n ?xs)) of
              Some b \<Rightarrow> Inr b
            | None \<Rightarrow> if ?n \<le> length ?xs then Inr null_impl else Inl OutOfBounds)"
          using "1.IH" [OF \<open>i < interface_count c\<close> inb False inv] .
        finally show ?thesis
          using False split suc by simp
      qed
    qed
  qed
qed

lemma has_iface_find:
  assumes "deref_class cls (object_type self) = Inr c"
  shows "has_iface cls self interface =
     (case find (\<lambda>b. impl_type b = interface) (class_bindings c) of
        Some b \<Rightarrow> Inr b
      | None \<Rightarrow>
          if unat (interface_count c) \<le> length (interfaces c) then Inr null_impl
          else Inl OutOfBounds)"
proof -
  have "unat (0 :: byte) < unat (interface_count c) \<or> unat (interface_count c) \<le> length (interfaces c)"
    by (cases "unat (interface_count c)") simp_all
  from has_iface_loop_find [OF this, of interface] assms show ?thesis
    by (simp add: has_iface_def class_bindings_def)
qed

lemma find_declares:
  "(\<exists>b. find (\<lambda>b. impl_type b = interface) (class_bindings c) = Some b) \<longleftrightarrow> declares c interface"
proof -
  have "(\<exists>b. find (\<lambda>b. impl_type b = interface) (class_bindings c) = Some b)
      \<longleftrightarrow> find (\<lambda>b. impl_type b = interface) (class_bindings c) \<noteq> None"
    by auto
  also have "\<dots> \<longleftrightarrow> (\<exists>b \<in> set (class_bindings c). impl_type b = interface)"
    by (auto simp: find_None_iff)
  also have "\<dots> \<longleftrightarrow> declares c interface"
    by (auto simp: declares_def)
  finally show ?thesis .
qed

text \<open>
  On a class whose declared count stays within its array the scan reads declared entries
  only, and resolution is as intended: for a non-null interface address \<open>has_iface\<close>
  returns a binding, which is other than the null sentinel exactly when the class declares
  the interface, and then is one of the class's bindings with the queried address as its
  \<open>type\<close> field.
\<close>

lemma has_iface_resolution_in_bounds:
  assumes cls: "deref_class cls (object_type self) = Inr c"
    and inb: "unat (interface_count c) \<le> length (interfaces c)"
    and valid: "interface \<noteq> NULL"
  shows "\<exists>b. has_iface cls self interface = Inr b
    \<and> (b \<noteq> null_impl \<longleftrightarrow> declares c interface)
    \<and> (b \<noteq> null_impl \<longrightarrow> impl_type b = interface \<and> b \<in> set (class_bindings c))"
proof (cases "find (\<lambda>b. impl_type b = interface) (class_bindings c)")
  case None
  then have "\<not> declares c interface"
    using find_declares [of interface c] by simp
  with None inb show ?thesis
    by (simp add: has_iface_find [OF cls])
next
  case (Some b)
  then have decl: "declares c interface"
    using find_declares [of interface c] by blast
  from Some have b: "impl_type b = interface" "b \<in> set (class_bindings c)"
    by (auto simp: find_Some_iff)
  with valid have "b \<noteq> null_impl"
    by (auto simp: null_impl_def)
  with Some decl b show ?thesis
    by (simp add: has_iface_find [OF cls])
qed

text \<open>
  The same with the program's own null test, for such a class none of whose bindings has a
  null table.
\<close>

lemma has_iface_isnull_iff:
  assumes cls: "deref_class cls (object_type self) = Inr c"
    and inb: "unat (interface_count c) \<le> length (interfaces c)"
    and res: "has_iface cls self interface = Inr b"
    and tables: "\<forall>x \<in> set (class_bindings c). impl_vtable x \<noteq> NULL"
  shows "iface_isnull b = 0 \<longleftrightarrow> declares c interface"
proof (cases "find (\<lambda>b. impl_type b = interface) (class_bindings c)")
  case None
  with res inb have "b = null_impl"
    by (simp add: has_iface_find [OF cls])
  moreover from None have "\<not> declares c interface"
    using find_declares [of interface c] by simp
  ultimately show ?thesis
    by (simp add: iface_isnull_def null_impl_def)
next
  case (Some b')
  with res have "b = b'"
    by (simp add: has_iface_find [OF cls])
  with Some have "b \<in> set (class_bindings c)"
    by (auto simp: find_Some_iff)
  with tables have "impl_vtable b \<noteq> NULL"
    by blast
  moreover from Some have "declares c interface"
    using find_declares [of interface c] by blast
  ultimately show ?thesis
    by (simp add: iface_isnull_def)
qed

subsection \<open>The binding array of the number class\<close>

text \<open>
  The count the initialiser computes is 2, and it is 2 for any size \<open>w\<close> of a pointer: one
  entry of two pointers takes \<open>2 * w\<close> bytes. A query on a number object for any interface
  but \<open>printable_iface\<close> therefore runs off the one-entry array.
\<close>

lemma number_interface_count: "unat (interface_count number_class) = 2"
  by (simp add: static_defs)

lemma number_interface_count_any_pointer_size:
  "0 < w \<Longrightarrow> (length number_interfaces * (2 * w)) div w = 2"
  by (simp add: number_interfaces_def)

lemma number_scan_undeclared:
  assumes "object_type self = number_class_ptr" and "interface \<noteq> printable_iface_ptr"
  shows "has_iface static_classes self interface = Inl OutOfBounds"
proof -
  from assms(1) have "deref_class static_classes (object_type self) = Inr number_class"
    by (simp add: deref_class_def static_classes_def number_class_ptr_def)
  from has_iface_find [OF this, of interface] assms(2) show ?thesis
    by (simp add: class_bindings_def static_defs)
qed

text \<open>
  Claim C3 says the scan over the number class stays inside \<open>number_interfaces\<close> because
  \<open>interface_count\<close> is the number of its entries. The initialiser divides the array's size
  by the size of a pointer, not of an \<open>impl\<close>: the count is 2, the array has 1 entry, and a
  query for an interface the class lacks reads \<open>number_interfaces[1]\<close>.
\<close>

theorem number_scan_out_of_bounds:
  "unat (interface_count number_class) = 2
   \<and> length (interfaces number_class) = 1
   \<and> has_iface static_classes sample_number comparable_iface_ptr = Inl OutOfBounds"
  by (simp add: has_iface_def deref_class_def static_defs sample_defs)

text \<open>
  Claim C1 says \<open>has_iface\<close> returns a non-null binding exactly when the object's class
  declares the queried interface, for every object handle. The number class is the one class
  of the program, and its count runs past its array. For the object \<open>new_number(3)\<close> builds
  and an interface the class does not declare, the scan does not come back with the null
  binding: after the miss at index 0 it goes on to \<open>number_interfaces[1]\<close>, outside the
  array, and the C loop would compare and return whatever lies there.
\<close>

theorem number_resolution_undeclared:
  "new_number (init_state 2) 3 = Inr (sample_state, sample_number)
   \<and> \<not> declares number_class comparable_iface_ptr
   \<and> \<not> unat (interface_count number_class) \<le> length (interfaces number_class)
   \<and> has_iface static_classes sample_number comparable_iface_ptr \<noteq> Inr null_impl
   \<and> has_iface static_classes sample_number comparable_iface_ptr = Inl OutOfBounds"
  by (simp add: new_number_def malloc_def store_blk_def init_state_def declares_def
      class_bindings_def has_iface_def deref_class_def static_defs sample_defs state_defs)

subsection \<open>Identity, not shape\<close>

text \<open>
  Claim C5. For two distinct interface descriptors of the same \<open>vtable_size\<close>, a binding
  that \<open>has_iface\<close> returns for one is never a binding of the other: the scan compares
  addresses and never reads a descriptor.
\<close>

theorem has_iface_identity_not_shape:
  assumes "ifaces p = Some d1" and "ifaces q = Some d2"
    and "vtable_size d1 = vtable_size d2"
    and "p \<noteq> q" and "p \<noteq> NULL"
    and "has_iface cls self q = Inr b"
  shows "impl_type b \<noteq> p"
proof -
  from assms(6) obtain c where c: "deref_class cls (object_type self) = Inr c"
    by (auto simp: has_iface_def split: sum.splits)
  show ?thesis
  proof (cases "find (\<lambda>b. impl_type b = q) (class_bindings c)")
    case None
    with assms(6) have "b = null_impl"
      by (auto simp: has_iface_find [OF c] split: if_splits)
    with \<open>p \<noteq> NULL\<close> show ?thesis
      by (auto simp: null_impl_def)
  next
    case (Some b')
    with assms(6) have "b = b'"
      by (simp add: has_iface_find [OF c])
    with Some have "impl_type b = q"
      by (auto simp: find_Some_iff)
    with \<open>p \<noteq> q\<close> show ?thesis
      by simp
  qed
qed

theorem has_iface_identity_not_shape_witness:
  "sample_ifaces printable_iface_ptr = Some printable_iface
   \<and> sample_ifaces comparable_iface_ptr = Some \<lparr>vtable_size = sizeof_void_ptr\<rparr>
   \<and> vtable_size printable_iface = vtable_size \<lparr>vtable_size = sizeof_void_ptr\<rparr>
   \<and> printable_iface_ptr \<noteq> comparable_iface_ptr
   \<and> printable_iface_ptr \<noteq> NULL
   \<and> has_iface sample_classes sample_exact_number comparable_iface_ptr = Inr null_impl
   \<and> impl_type null_impl \<noteq> printable_iface_ptr"
proof -
  have h1: "sample_ifaces printable_iface_ptr = Some printable_iface"
    by (simp add: sample_defs static_defs)
  have h2: "sample_ifaces comparable_iface_ptr = Some \<lparr>vtable_size = sizeof_void_ptr\<rparr>"
    by (simp add: sample_defs static_defs)
  have h3: "vtable_size printable_iface = vtable_size \<lparr>vtable_size = sizeof_void_ptr\<rparr>"
    by (simp add: printable_iface_def sizeof_printable_vtable_def)
  have h4: "printable_iface_ptr \<noteq> comparable_iface_ptr"
    by (simp add: sample_defs static_defs)
  have h5: "printable_iface_ptr \<noteq> NULL"
    by (simp add: static_defs)
  have h6: "has_iface sample_classes sample_exact_number comparable_iface_ptr = Inr null_impl"
    by (simp add: has_iface_def deref_class_def sample_defs static_defs)
  from has_iface_identity_not_shape [OF h1 h2 h3 h4 h5 h6] h1 h2 h3 h4 h5 h6
  show ?thesis
    by simp
qed


subsection \<open>Dispatch through \<open>println\<close>\<close>

lemma deref_vtable_no_assert: "deref_vtable s p \<noteq> Inl (AssertFailed n)"
  by (simp add: deref_vtable_def split: ptr.splits option.splits slot.splits blk.splits)

lemma deref_number_no_assert: "deref_number s p \<noteq> Inl (AssertFailed n)"
  by (simp add: deref_number_def split: ptr.splits option.splits slot.splits blk.splits)

lemma number_print_no_println_assert:
  "number_print s self len buf \<noteq> Inl (AssertFailed ''println'')"
  using deref_number_no_assert [of s "object_instance self" "''println''"]
  by (cases "deref_number s (object_instance self)") (simp_all add: number_print_def)

lemma call_toString_no_println_assert:
  "call_toString f s self len buf \<noteq> Inl (AssertFailed ''println'')"
  by (simp add: call_toString_def number_print_no_println_assert)

text \<open>
  Claim C2. The check at the start of \<open>println\<close> cannot fail: for every state, receiver and
  binding, \<open>println\<close> never stops with its own assertion, and overwriting the binding's
  \<open>type\<close> field with any pointer whatever leaves the result of \<open>println\<close> unchanged. The
  assertion assigns \<open>&printable_iface\<close> and tests that non-null address.
\<close>

theorem println_check_tautology:
  "println s self contract \<noteq> Inl (AssertFailed ''println'')
   \<and> println s self (contract\<lparr>impl_type := t\<rparr>) = println s self contract"
proof
  show "println s self contract \<noteq> Inl (AssertFailed ''println'')"
  proof (cases "deref_vtable s (impl_vtable contract)")
    case (Inl e)
    with deref_vtable_no_assert [of s "impl_vtable contract" "''println''"] show ?thesis
      by (simp add: println_def printable_iface_ptr_def)
  next
    case (Inr v)
    then show ?thesis
      using call_toString_no_println_assert [of "toString v" s self 2 "[0, 10]"]
      by (cases "call_toString (toString v) s self 2 [0, 10]")
         (simp_all add: println_def printable_iface_ptr_def)
  qed
next
  show "println s self (contract\<lparr>impl_type := t\<rparr>) = println s self contract"
    by (simp add: println_def)
qed

text \<open>What \<open>println\<close> writes for a live number through any table whose entry is \<open>number_print\<close>.\<close>

lemma println_live_number:
  assumes "live_number s num v"
    and "deref_vtable s (impl_vtable contract) = Inr vt"
    and "toString vt = number_print_ptr"
  shows "println s num contract =
     (if sint v + 48 > INT_MAX then Inl SignedOverflow
      else Inr (s\<lparr>stdout := stdout s @ [ucast (v + 48), 10]\<rparr>))"
proof -
  from assms(1) obtain a where a: "object_type num = number_class_ptr"
      "object_instance num = Heap a" "heap s a = Some (Live (NumberBlk \<lparr>representation = v\<rparr>))"
    by (auto simp: live_number_def split: ptr.splits)
  then have "number_print s num 2 [0, 10] =
     (if sint v + 48 > INT_MAX then Inl SignedOverflow else Inr [ucast (v + 48), 10])"
    by (simp add: number_print_def deref_number_def)
  with assms(2,3) show ?thesis
    by (simp add: println_def printable_iface_ptr_def call_toString_def write_stdout_def)
qed

text \<open>A binding that names another interface prints all the same.\<close>

lemma println_mismatched_interface_runs:
  "println sample_state sample_number
     \<lparr>impl_type = comparable_iface_ptr, impl_vtable = number_printable_vtable_ptr\<rparr>
   = Inr (sample_state\<lparr>stdout := [51, 10]\<rparr>)"
  by (simp add: println_def deref_vtable_def call_toString_def number_print_def
      deref_number_def write_stdout_def INT_MAX_def state_defs sample_defs static_defs)

lemma new_number_live:
  assumes "brk s < heap_limit s"
  shows "new_number s v =
      Inr (s\<lparr>heap := (heap s)(brk s \<mapsto> Live (NumberBlk \<lparr>representation = v\<rparr>)), brk := Suc (brk s)\<rparr>,
           \<lparr>object_type = number_class_ptr, object_instance = Heap (brk s)\<rparr>)"
    and "live_number
      (s\<lparr>heap := (heap s)(brk s \<mapsto> Live (NumberBlk \<lparr>representation = v\<rparr>)), brk := Suc (brk s)\<rparr>)
      \<lparr>object_type = number_class_ptr, object_instance = Heap (brk s)\<rparr> v"
  using assms by (simp_all add: new_number_def malloc_def store_blk_def live_number_def)

lemma has_iface_number_printable:
  assumes "object_type self = number_class_ptr"
  shows "has_iface static_classes self printable_iface_ptr = Inr number_printable_impl"
proof -
  from assms have "deref_class static_classes (object_type self) = Inr number_class"
    by (simp add: deref_class_def static_classes_def number_class_ptr_def)
  from has_iface_find [OF this, of printable_iface_ptr] show ?thesis
    by (simp add: class_bindings_def static_defs)
qed

lemma deref_static_vtable:
  "deref_vtable s number_printable_vtable_ptr = Inr number_printable_vtable"
  by (simp add: deref_vtable_def number_printable_vtable_ptr_def)

text \<open>
  Claim C4. Where \<open>malloc\<close> succeeds, constructing a number with value 3, resolving its
  printable capability with \<open>has_iface\<close> and calling \<open>println\<close> through the binding found
  appends exactly the two bytes \<open>'3'\<close> and newline to the output; with value 0, the two bytes
  \<open>'0'\<close> and newline.
\<close>

theorem number_println_output:
  assumes "brk s < heap_limit s"
  shows "(\<exists>s1 num contract s2.
            new_number s 3 = Inr (s1, num)
          \<and> has_iface static_classes num printable_iface_ptr = Inr contract
          \<and> iface_isnull contract = 0
          \<and> println s1 num contract = Inr s2
          \<and> stdout s2 = stdout s @ [of_char CHR ''3'', of_char CHR 0x0A])
       \<and> (\<exists>s1 num contract s2.
            new_number s 0 = Inr (s1, num)
          \<and> has_iface static_classes num printable_iface_ptr = Inr contract
          \<and> iface_isnull contract = 0
          \<and> println s1 num contract = Inr s2
          \<and> stdout s2 = stdout s @ [of_char CHR ''0'', of_char CHR 0x0A])"
proof -
  have one: "\<exists>s1 num contract s2.
            new_number s v = Inr (s1, num)
          \<and> has_iface static_classes num printable_iface_ptr = Inr contract
          \<and> iface_isnull contract = 0
          \<and> println s1 num contract = Inr s2
          \<and> stdout s2 = stdout s @ [ucast (v + 48), 10]"
    if small: "sint v + 48 \<le> INT_MAX" for v
  proof -
    let ?s1 = "s\<lparr>heap := (heap s)(brk s \<mapsto> Live (NumberBlk \<lparr>representation = v\<rparr>)), brk := Suc (brk s)\<rparr>"
    let ?num = "\<lparr>object_type = number_class_ptr, object_instance = Heap (brk s)\<rparr>"
    have "println ?s1 ?num number_printable_impl = Inr (?s1\<lparr>stdout := stdout ?s1 @ [ucast (v + 48), 10]\<rparr>)"
      using println_live_number [OF new_number_live(2) [OF assms, of v], of number_printable_impl number_printable_vtable] small
      by (simp add: deref_static_vtable number_printable_impl_def number_printable_vtable_def)
    moreover have "has_iface static_classes ?num printable_iface_ptr = Inr number_printable_impl"
      by (simp add: has_iface_number_printable)
    moreover have "iface_isnull number_printable_impl = 0"
      by (simp add: iface_isnull_def static_defs)
    ultimately show ?thesis
      using new_number_live(1) [OF assms, of v] by simp
  qed
  from one [of 3] one [of 0] show ?thesis
    by (simp add: INT_MAX_def)
qed

theorem number_println_output_witness:
  "brk (init_state 1) < heap_limit (init_state 1)
   \<and> (\<exists>s1 num contract s2.
            new_number (init_state 1) 3 = Inr (s1, num)
          \<and> has_iface static_classes num printable_iface_ptr = Inr contract
          \<and> iface_isnull contract = 0
          \<and> println s1 num contract = Inr s2
          \<and> stdout s2 = [of_char CHR ''3'', of_char CHR 0x0A])
   \<and> (\<exists>s1 num contract s2.
            new_number (init_state 1) 0 = Inr (s1, num)
          \<and> has_iface static_classes num printable_iface_ptr = Inr contract
          \<and> iface_isnull contract = 0
          \<and> println s1 num contract = Inr s2
          \<and> stdout s2 = [of_char CHR ''0'', of_char CHR 0x0A])"
proof -
  have h: "brk (init_state 1) < heap_limit (init_state 1)"
    by (simp add: init_state_def)
  have e: "stdout (init_state 1) = []"
    by (simp add: init_state_def)
  from number_println_output [OF h] h show ?thesis
    unfolding e append_Nil by blast
qed

subsection \<open>Three ways to a binding\<close>

lemma new_runtime_number_print_iface_result:
  assumes "new_runtime_number_print_iface s num = Inr (s1, generated)"
  shows "s1 = s\<lparr>heap := (heap s)(brk s \<mapsto> Live (VtableBlk \<lparr>toString = number_print_ptr\<rparr>)),
                 brk := Suc (brk s)\<rparr>"
    and "generated = \<lparr>impl_type = printable_iface_ptr, impl_vtable = Heap (brk s)\<rparr>"
    and "brk s < heap_limit s"
  using assms
  by (auto simp: new_runtime_number_print_iface_def malloc_def store_blk_def
      split: if_splits)

text \<open>
  Claim C6. For every live number object, \<open>println\<close> through the static binding
  \<open>number_printable_impl\<close>, through a binding made by \<open>new_runtime_number_print_iface\<close> and
  through a binding the caller assembles around an automatic table holding
  \<open>number_printable_vtable.toString\<close> has the same observable outcome: the bytes
  \<open>representation + '0'\<close> and newline appended to the output (or the same overflow fault).
  All three tables hold the one entry point \<open>number_print\<close>, called with the same receiver.
\<close>

theorem dispatch_equivalent:
  assumes live: "live_number s num v"
    and gen: "new_runtime_number_print_iface s num = Inr (s1, generated)"
  shows "observable (println s1 num generated) = observable (println s num number_printable_impl)
    \<and> observable (println (s\<lparr>locals := (locals s)(k \<mapsto> \<lparr>toString = toString number_printable_vtable\<rparr>)\<rparr>)
          num \<lparr>impl_type = printable_iface_ptr, impl_vtable = Local k\<rparr>)
        = observable (println s num number_printable_impl)
    \<and> observable (println s num number_printable_impl)
        = (if sint v + 48 > INT_MAX then Inl SignedOverflow
           else Inr (stdout s @ [ucast (v + 48), 10]))
    \<and> deref_vtable s (impl_vtable number_printable_impl) = Inr number_printable_vtable
    \<and> deref_vtable s1 (impl_vtable generated) = Inr number_printable_vtable
    \<and> deref_vtable (s\<lparr>locals := (locals s)(k \<mapsto> \<lparr>toString = toString number_printable_vtable\<rparr>)\<rparr>)
          (Local k) = Inr number_printable_vtable"
proof -
  let ?s2 = "s\<lparr>locals := (locals s)(k \<mapsto> \<lparr>toString = toString number_printable_vtable\<rparr>)\<rparr>"
  let ?duck = "\<lparr>impl_type = printable_iface_ptr, impl_vtable = Local k\<rparr>"
  let ?out = "if sint v + 48 > INT_MAX then Inl SignedOverflow
              else Inr (stdout s @ [ucast (v + 48), 10])"
  note g = new_runtime_number_print_iface_result [OF gen]
  have entry: "toString number_printable_vtable = number_print_ptr"
    by (simp add: number_printable_vtable_def)
  have live1: "live_number s1 num v"
    using live unfolding g(1) by (auto simp: live_number_def split: ptr.splits)
  have live2: "live_number ?s2 num v"
    using live by (auto simp: live_number_def split: ptr.splits)
  have d0: "deref_vtable s (impl_vtable number_printable_impl) = Inr number_printable_vtable"
    by (simp add: number_printable_impl_def deref_static_vtable)
  have d1: "deref_vtable s1 (impl_vtable generated) = Inr number_printable_vtable"
    unfolding g(1) g(2) by (simp add: deref_vtable_def number_printable_vtable_def)
  have d2: "deref_vtable ?s2 (impl_vtable ?duck) = Inr number_printable_vtable"
    by (simp add: deref_vtable_def number_printable_vtable_def)
  have o0: "observable (println s num number_printable_impl) = ?out"
    by (simp add: println_live_number [OF live d0 entry] observable_def)
  have "stdout s1 = stdout s"
    unfolding g(1) by simp
  then have o1: "observable (println s1 num generated) = ?out"
    by (simp add: println_live_number [OF live1 d1 entry] observable_def)
  have o2: "observable (println ?s2 num ?duck) = ?out"
    by (simp add: println_live_number [OF live2 d2 entry] observable_def)
  from o0 o1 o2 d0 d1 d2 show ?thesis
    by simp
qed

theorem dispatch_equivalent_witness:
  "live_number sample_state sample_number 3
   \<and> new_runtime_number_print_iface sample_state sample_number
        = Inr (sample_generated_state, sample_generated)
   \<and> observable (println sample_generated_state sample_number sample_generated)
        = Inr [of_char CHR ''3'', of_char CHR 0x0A]
   \<and> observable (println (sample_state\<lparr>locals := [0 \<mapsto> \<lparr>toString = toString number_printable_vtable\<rparr>]\<rparr>)
          sample_number \<lparr>impl_type = printable_iface_ptr, impl_vtable = Local 0\<rparr>)
        = Inr [of_char CHR ''3'', of_char CHR 0x0A]
   \<and> observable (println sample_state sample_number number_printable_impl)
        = Inr [of_char CHR ''3'', of_char CHR 0x0A]"
proof -
  have h1: "live_number sample_state sample_number 3"
    by (simp add: live_number_def state_defs sample_defs)
  have h2: "new_runtime_number_print_iface sample_state sample_number
        = Inr (sample_generated_state, sample_generated)"
    by (simp add: new_runtime_number_print_iface_def malloc_def store_blk_def
        state_defs sample_defs)
  have e: "stdout sample_state = []" "locals sample_state = Map.empty"
    by (simp_all add: sample_state_def)
  from dispatch_equivalent [OF h1 h2, of 0] h1 h2 show ?thesis
    by (simp add: e INT_MAX_def)
qed

subsection \<open>Release and destruction\<close>

lemma free_live:
  "heap s a = Some (Live b) \<Longrightarrow> free s (Heap a) = Inr (s\<lparr>heap := (heap s)(a \<mapsto> Released)\<rparr>)"
  by (simp add: free_def)

lemma free_null: "free s NULL = Inr s"
  by (simp add: free_def)

lemma free_released:
  "heap s a = Some Released \<Longrightarrow> free s (Heap a) = Inl InvalidFree"
  by (simp add: free_def)

text \<open>
  Claim C7 says a second release of a runtime-generated binding is detected and reported.
  In the sample run the second \<open>destroy_number_print_iface\<close> on the released binding
  returns normally, with the state and the binding as the first release left them.
\<close>

theorem release_twice_counterexample:
  "new_runtime_number_print_iface sample_state sample_number
     = Inr (sample_generated_state, sample_generated)
   \<and> destroy_number_print_iface sample_generated_state sample_generated
     = Inr (sample_released_state, sample_released)
   \<and> destroy_number_print_iface sample_released_state sample_released
     = Inr (sample_released_state, sample_released)"
  by (simp add: new_runtime_number_print_iface_def destroy_number_print_iface_def
      malloc_def store_blk_def free_def state_defs sample_defs)

text \<open>
  Claim C7, amended. Releasing a binding whose table is a live heap block frees that block
  and nulls the binding's table field; a second release of the same binding is a silent
  no-op (\<open>free\<close> of the null pointer): it returns normally and leaves heap and binding as
  they were, so the table is freed exactly once and nothing is reported.
\<close>

theorem release_generated_binding_once:
  assumes "impl_vtable g = Heap a" and "heap s a = Some (Live b)"
  shows "destroy_number_print_iface s g
      = Inr (s\<lparr>heap := (heap s)(a \<mapsto> Released)\<rparr>, g\<lparr>impl_vtable := NULL\<rparr>)
    \<and> destroy_number_print_iface (s\<lparr>heap := (heap s)(a \<mapsto> Released)\<rparr>) (g\<lparr>impl_vtable := NULL\<rparr>)
      = Inr (s\<lparr>heap := (heap s)(a \<mapsto> Released)\<rparr>, g\<lparr>impl_vtable := NULL\<rparr>)"
  using assms by (simp add: destroy_number_print_iface_def free_live free_null)

theorem release_generated_binding_once_witness:
  "impl_vtable sample_generated = Heap 1
   \<and> heap sample_generated_state 1 = Some (Live (VtableBlk \<lparr>toString = number_print_ptr\<rparr>))
   \<and> destroy_number_print_iface sample_generated_state sample_generated
      = Inr (sample_released_state, sample_released)
   \<and> destroy_number_print_iface sample_released_state sample_released
      = Inr (sample_released_state, sample_released)"
proof -
  have h1: "impl_vtable sample_generated = Heap 1"
    by (simp add: state_defs)
  have h2: "heap sample_generated_state 1 = Some (Live (VtableBlk \<lparr>toString = number_print_ptr\<rparr>))"
    by (simp add: state_defs)
  have e: "sample_generated_state\<lparr>heap := (heap sample_generated_state)(1 \<mapsto> Released)\<rparr>
        = sample_released_state"
      "sample_generated\<lparr>impl_vtable := NULL\<rparr> = sample_released"
    by (simp_all add: state_defs)
  from release_generated_binding_once [OF h1 h2] h1 h2 show ?thesis
    unfolding e by simp
qed

text \<open>
  A copy of the binding taken before the release still holds the table's address; releasing
  through it afterwards frees the block a second time.
\<close>

lemma release_stale_copy_faults:
  assumes "impl_vtable g = Heap a" and "heap s a = Some (Live b)"
  shows "destroy_number_print_iface (s\<lparr>heap := (heap s)(a \<mapsto> Released)\<rparr>) g = Inl InvalidFree"
  using assms by (simp add: destroy_number_print_iface_def free_released)

text \<open>
  Claim C9. The first \<open>destroy_number\<close> on a live number object releases the payload and
  nulls the handle's instance reference; a second call on that handle returns normally and
  changes neither the heap nor the handle. The null instance reference is what a caller can
  test to see that the handle has been destroyed.
\<close>

theorem destroy_number_twice:
  assumes "live_number s self v" and "object_instance self = Heap a"
  shows "destroy_number s self
      = Inr (s\<lparr>heap := (heap s)(a \<mapsto> Released)\<rparr>, self\<lparr>object_instance := NULL\<rparr>)
    \<and> destroy_number (s\<lparr>heap := (heap s)(a \<mapsto> Released)\<rparr>) (self\<lparr>object_instance := NULL\<rparr>)
      = Inr (s\<lparr>heap := (heap s)(a \<mapsto> Released)\<rparr>, self\<lparr>object_instance := NULL\<rparr>)"
proof -
  from assms have "heap s a = Some (Live (NumberBlk \<lparr>representation = v\<rparr>))"
    by (simp add: live_number_def)
  with assms(2) show ?thesis
    by (simp add: destroy_number_def free_live free_null)
qed

theorem destroy_number_twice_witness:
  "live_number sample_state sample_number 3
   \<and> object_instance sample_number = Heap 0
   \<and> destroy_number sample_state sample_number = Inr (sample_destroyed_state, sample_destroyed)
   \<and> destroy_number sample_destroyed_state sample_destroyed
      = Inr (sample_destroyed_state, sample_destroyed)"
proof -
  have h1: "live_number sample_state sample_number 3"
    by (simp add: live_number_def state_defs sample_defs)
  have h2: "object_instance sample_number = Heap 0"
    by (simp add: sample_defs)
  have e: "sample_state\<lparr>heap := (heap sample_state)(0 \<mapsto> Released)\<rparr> = sample_destroyed_state"
      "sample_number\<lparr>object_instance := NULL\<rparr> = sample_destroyed"
    by (simp_all add: state_defs sample_defs)
  from destroy_number_twice [OF h1 h2] h1 h2 show ?thesis
    unfolding e by simp
qed

text \<open>
  Claim C8 says every invoke or resolve on a destroyed handle is rejected. In the sample
  run \<open>has_iface\<close> on the destroyed handle returns the printable binding as before, and
  \<open>number_print\<close> with length 1 returns normally.
\<close>

theorem use_after_destroy_counterexample:
  "destroy_number sample_state sample_number = Inr (sample_destroyed_state, sample_destroyed)
   \<and> has_iface static_classes sample_destroyed printable_iface_ptr = Inr number_printable_impl
   \<and> number_print sample_destroyed_state sample_destroyed 1 [0, 10] = Inr [0, 10]"
  by (simp add: destroy_number_def free_def has_iface_def deref_class_def number_print_def
      state_defs sample_defs static_defs)

text \<open>
  Claim C8, amended. After \<open>destroy_number\<close> on a live number object the handle's instance
  reference is null and its class reference is unchanged. \<open>has_iface\<close> on the handle is not
  rejected: it returns what it returned before, since it reads the class reference only.
  \<open>println\<close> on the handle through a binding whose table holds \<open>number_print\<close>, and
  \<open>number_print\<close> with length above 1, pass the assertion on the class and stop at the
  dereference of the null instance reference (undefined in C, not a check of the program),
  writing nothing; \<open>number_print\<close> with length at most 1 returns normally and leaves the
  buffer alone.
\<close>

theorem destroyed_handle_behaviour:
  assumes "live_number s self v" and "destroy_number s self = Inr (s1, self1)"
  shows "object_instance self1 = NULL
    \<and> object_type self1 = object_type self
    \<and> has_iface cls self1 interface = has_iface cls self interface
    \<and> (deref_vtable s1 (impl_vtable contract) = Inr vt \<and> toString vt = number_print_ptr \<longrightarrow>
          println s1 self1 contract = Inl NullDeref)
    \<and> (1 < len \<longrightarrow> number_print s1 self1 len buf = Inl NullDeref)
    \<and> (len \<le> 1 \<longrightarrow> number_print s1 self1 len buf = Inr buf)"
proof -
  from assms(2) have self1: "self1 = self\<lparr>object_instance := NULL\<rparr>"
    by (cases "free s (object_instance self)") (auto simp: destroy_number_def)
  from assms(1) have ty: "object_type self = number_class_ptr"
    by (simp add: live_number_def)
  have np: "number_print s1 self1 2 [0, 10] = Inl NullDeref"
    by (simp add: self1 ty number_print_def deref_number_def)
  have "println s1 self1 contract = Inl NullDeref"
    if "deref_vtable s1 (impl_vtable contract) = Inr vt" and "toString vt = number_print_ptr"
    using that np by (simp add: println_def printable_iface_ptr_def call_toString_def)
  with ty show ?thesis
    by (simp add: self1 has_iface_def number_print_def deref_number_def)
qed

theorem destroyed_handle_behaviour_witness:
  "live_number sample_state sample_number 3
   \<and> destroy_number sample_state sample_number = Inr (sample_destroyed_state, sample_destroyed)
   \<and> object_instance sample_destroyed = NULL
   \<and> object_type sample_destroyed = object_type sample_number
   \<and> has_iface static_classes sample_destroyed printable_iface_ptr
      = has_iface static_classes sample_number printable_iface_ptr
   \<and> deref_vtable sample_destroyed_state (impl_vtable number_printable_impl)
      = Inr number_printable_vtable
   \<and> toString number_printable_vtable = number_print_ptr
   \<and> println sample_destroyed_state sample_destroyed number_printable_impl = Inl NullDeref
   \<and> number_print sample_destroyed_state sample_destroyed 2 [0, 10] = Inl NullDeref
   \<and> number_print sample_destroyed_state sample_destroyed 1 [0, 10] = Inr [0, 10]"
proof -
  have h1: "live_number sample_state sample_number 3"
    by (simp add: live_number_def state_defs sample_defs)
  have h2: "destroy_number sample_state sample_number
      = Inr (sample_destroyed_state, sample_destroyed)"
    by (simp add: destroy_number_def free_def state_defs sample_defs)
  have h3: "deref_vtable sample_destroyed_state (impl_vtable number_printable_impl)
      = Inr number_printable_vtable"
    by (simp add: number_printable_impl_def deref_static_vtable)
  have h4: "toString number_printable_vtable = number_print_ptr"
    by (simp add: number_printable_vtable_def)
  from destroyed_handle_behaviour [OF h1 h2, of static_classes printable_iface_ptr
      number_printable_impl number_printable_vtable 2 "[0, 10]"]
    destroyed_handle_behaviour [OF h1 h2, of static_classes printable_iface_ptr
      number_printable_impl number_printable_vtable 1 "[0, 10]"]
    h1 h2 h3 h4
  show ?thesis
    by simp
qed

subsection \<open>The null test\<close>

text \<open>
  Claim C10. \<open>iface_isnull\<close> answers true exactly when the binding's \<open>vtable\<close> field is
  null, and its answer does not change when the \<open>type\<close> field is overwritten. A binding
  that \<open>destroy_number_print_iface\<close> has released keeps its \<open>type\<close> field and is classified
  null.
\<close>

theorem iface_isnull_vtable_only:
  "(iface_isnull b \<noteq> 0 \<longleftrightarrow> impl_vtable b = NULL)
   \<and> iface_isnull (b\<lparr>impl_type := t\<rparr>) = iface_isnull b
   \<and> (destroy_number_print_iface s g = Inr (s1, g1) \<longrightarrow>
        impl_type g1 = impl_type g \<and> iface_isnull g1 \<noteq> 0)"
proof -
  have "impl_type g1 = impl_type g \<and> iface_isnull g1 \<noteq> 0"
    if "destroy_number_print_iface s g = Inr (s1, g1)"
  proof -
    from that have "g1 = g\<lparr>impl_vtable := NULL\<rparr>"
      by (cases "free s (impl_vtable g)") (auto simp: destroy_number_print_iface_def)
    then show ?thesis
      by (simp add: iface_isnull_def)
  qed
  then show ?thesis
    by (simp add: iface_isnull_def)
qed

theorem iface_isnull_vtable_only_witness:
  "destroy_number_print_iface sample_generated_state sample_generated
     = Inr (sample_released_state, sample_released)
   \<and> impl_type sample_released = printable_iface_ptr
   \<and> printable_iface_ptr \<noteq> NULL
   \<and> impl_vtable sample_released = NULL
   \<and> iface_isnull sample_released \<noteq> 0
   \<and> iface_isnull (sample_generated\<lparr>impl_type := NULL\<rparr>) = 0"
proof -
  have h: "destroy_number_print_iface sample_generated_state sample_generated
     = Inr (sample_released_state, sample_released)"
    by (simp add: destroy_number_print_iface_def free_def state_defs)
  have v: "impl_vtable sample_generated \<noteq> NULL"
    by (simp add: state_defs)
  from iface_isnull_vtable_only [of sample_generated NULL sample_generated_state sample_generated
      sample_released_state sample_released] h v
  show ?thesis
    by (simp add: state_defs static_defs)
qed

subsection \<open>The example run\<close>

text \<open>With room for two blocks, \<open>main\<close> returns 0 after printing \<open>3\<close> and newline four times.\<close>

lemma main_output:
  assumes "Suc (brk s) < heap_limit s"
  shows "\<exists>s1. main s = Inr (0, s1)
     \<and> stdout s1 = stdout s @ [of_char CHR ''3'', of_char CHR 0x0A, of_char CHR ''3'', of_char CHR 0x0A,
          of_char CHR ''3'', of_char CHR 0x0A, of_char CHR ''3'', of_char CHR 0x0A]"
proof -
  have resolve: "has_iface static_classes
        \<lparr>object_type = Global ''number_class'', object_instance = i\<rparr> (Global ''printable_iface'')
      = Inr \<lparr>impl_type = Global ''printable_iface'',
             impl_vtable = Global ''number_printable_vtable''\<rparr>" for i
    using has_iface_number_printable
      [of "\<lparr>object_type = Global ''number_class'', object_instance = i\<rparr>"]
    by (simp add: number_class_ptr_def printable_iface_ptr_def number_printable_impl_def
        number_printable_vtable_ptr_def)
  from assms show ?thesis
    by (simp add: main_def new_number_def new_runtime_number_print_iface_def malloc_def
        store_blk_def println_def deref_vtable_def call_toString_def number_print_def
        deref_number_def write_stdout_def destroy_number_print_iface_def destroy_number_def
        free_def resolve iface_isnull_def INT_MAX_def
        number_class_ptr_def printable_iface_ptr_def number_printable_vtable_ptr_def
        number_printable_vtable_def number_print_ptr_def number_printable_impl_def)
qed

end
